theory Spec2Isabelle
  imports Complex_Main "HOL-Library.Sublist"
begin

section \<open>Data model\<close>

text \<open>
  The dashboard works on JavaScript strings and numbers. A string is modelled as a
  \<open>string\<close> (a list of 8-bit characters, read as ASCII), a number as a rational:
  every score is built from occurrence counts, the weight 3, halves and the constant
  0.1 by addition and one division, so the arithmetic is modelled exactly and
  rounding of IEEE doubles is left out. A division whose divisor is zero does not
  yield a finite number in JavaScript (it is \<open>NaN\<close> or an infinity); the model
  returns \<open>None\<close> there instead of HOL's \<open>x / 0 = 0\<close>.
\<close>

type_synonym number = rat

record SentimentResult =
  label :: string
  score :: number

text \<open>
  The fields \<open>keywords\<close> and \<open>text\<close> of the interface \<open>AnalysisResult\<close>
  carry a prime, since both words are reserved in theory text.
  The timestamp is a \<open>Date\<close>, modelled by its milliseconds since the epoch.
\<close>

record AnalysisResult =
  sentiment :: "SentimentResult list"
  confidence :: number
  keywords' :: "string list"
  text' :: string
  timestamp :: int

section \<open>String primitives of the language\<close>

definition isUpper :: "char \<Rightarrow> bool" where
  "isUpper c = (65 \<le> (of_char c :: nat) \<and> (of_char c :: nat) \<le> 90)"

definition toLowerChar :: "char \<Rightarrow> char" where
  "toLowerChar c = (if isUpper c then char_of (of_char c + (32::nat)) else c)"

text \<open>\<open>String.prototype.toLowerCase\<close> on ASCII text.\<close>

definition toLowerCase :: "string \<Rightarrow> string" where
  "toLowerCase s = map toLowerChar s"

text \<open>
  \<open>(t.match(new RegExp(w, 'g')) || []).length\<close> for a pattern \<open>w\<close> without
  metacharacters (all patterns of the program are letters, spaces or \<open>!\<close>): the
  number of matches of \<open>w\<close> found scanning \<open>t\<close> from the left, where the scan
  resumes behind each match, so matches do not overlap. The empty pattern matches once
  at every position, the end included.
\<close>

fun count_matches :: "string \<Rightarrow> string \<Rightarrow> nat" where
  "count_matches w [] = (if w = [] then 1 else 0)"
| "count_matches w (c # cs) =
     (if prefix w (c # cs) then Suc (count_matches w (drop (length w - 1) cs))
      else count_matches w cs)"

text \<open>\<open>t.includes(p)\<close>: \<open>p\<close> occurs in \<open>t\<close> as a contiguous substring
  (\<open>includes\<close> is a reserved word, hence the prime).\<close>

fun includes' :: "string \<Rightarrow> string \<Rightarrow> bool" where
  "includes' [] p = (p = [])"
| "includes' (c # cs) p = (prefix p (c # cs) \<or> includes' cs p)"

section \<open>The sentiment scorer\<close>

definition positiveWords :: "string list" where
  "positiveWords = [''good'', ''great'', ''excellent'', ''amazing'', ''wonderful'',
     ''fantastic'', ''love'', ''like'', ''happy'', ''perfect'', ''best'', ''awesome'',
     ''brilliant'', ''outstanding'', ''superb'']"

definition negativeWords :: "string list" where
  "negativeWords = [''bad'', ''terrible'', ''awful'', ''horrible'', ''hate'', ''worst'',
     ''disappointing'', ''poor'', ''sad'', ''angry'', ''disgusting'', ''pathetic'',
     ''useless'', ''annoying'', ''frustrated'']"

definition neutralWords :: "string list" where
  "neutralWords = [''okay'', ''fine'', ''average'', ''normal'', ''standard'', ''typical'',
     ''regular'', ''moderate'']"

definition strongNegativePhrases :: "string list" where
  "strongNegativePhrases = [''no one should'', ''never again'', ''waste of money'',
     ''completely disappointed'']"

text \<open>The three running scores \<open>positiveScore\<close>, \<open>negativeScore\<close>, \<open>neutralScore\<close>.\<close>

record scores =
  positiveScore :: number
  negativeScore :: number
  neutralScore :: number

text \<open>One \<open>forEach\<close> over a word list: \<open>acc += matches\<close> for each word.\<close>

definition countWords :: "string list \<Rightarrow> string \<Rightarrow> number" where
  "countWords ws t = foldl (\<lambda>acc w. acc + of_nat (count_matches w t)) 0 ws"

definition wordScores :: "string \<Rightarrow> scores" where
  "wordScores t =
     \<lparr>positiveScore = countWords positiveWords t,
      negativeScore = countWords negativeWords t,
      neutralScore = countWords neutralWords t\<rparr>"

text \<open>The \<open>forEach\<close> over the strong negative phrases: weight 3 for each phrase present.\<close>

definition strongPhrases :: "string \<Rightarrow> scores \<Rightarrow> scores" where
  "strongPhrases t s =
     s\<lparr>negativeScore :=
        foldl (\<lambda>acc p. if includes' t p then acc + 3 else acc) (negativeScore s)
          strongNegativePhrases\<rparr>"

definition exclamations :: "string \<Rightarrow> nat" where
  "exclamations t = count_matches ''!'' t"

definition exclamationBoost :: "string \<Rightarrow> scores \<Rightarrow> scores" where
  "exclamationBoost t s =
     (if exclamations t > 0 then
        if negativeScore s > positiveScore s then
          s\<lparr>negativeScore := negativeScore s + of_nat (exclamations t) * (1 / 2)\<rparr>
        else if positiveScore s > negativeScore s then
          s\<lparr>positiveScore := positiveScore s + of_nat (exclamations t) * (1 / 2)\<rparr>
        else s
      else s)"

text \<open>"Set base scores if no sentiment words found".\<close>

definition baseScores :: "scores \<Rightarrow> scores" where
  "baseScores s =
     (if positiveScore s = 0 \<and> negativeScore s = 0 \<and> neutralScore s = 0
      then s\<lparr>neutralScore := 1\<rparr> else s)"

text \<open>The scores counted from the lower-cased text \<open>t\<close>, before the base scores are set.\<close>

definition signalScores :: "string \<Rightarrow> scores" where
  "signalScores t = exclamationBoost t (strongPhrases t (wordScores t))"

text \<open>The scores as they stand when the sentiment array is created.\<close>

definition rawScores :: "string \<Rightarrow> scores" where
  "rawScores inputText = baseScores (signalScores (toLowerCase inputText))"

definition sentimentArray :: "scores \<Rightarrow> SentimentResult list" where
  "sentimentArray s =
     [\<lparr>label = ''POSITIVE'', score = positiveScore s\<rparr>,
      \<lparr>label = ''NEGATIVE'', score = negativeScore s\<rparr>,
      \<lparr>label = ''NEUTRAL'', score = (if neutralScore s = 0 then 1 / 10 else neutralScore s)\<rparr>]"

text \<open>\<open>sentiment.reduce((sum, item) => sum + item.score, 0)\<close>.\<close>

definition total :: "SentimentResult list \<Rightarrow> number" where
  "total xs = foldl (\<lambda>sum item. sum + score item) 0 xs"

text \<open>Division of numbers; \<open>None\<close> where JavaScript yields no finite number.\<close>

definition divide_number :: "number \<Rightarrow> number \<Rightarrow> number option" where
  "divide_number a b = (if b = 0 then None else Some (a / b))"

fun normalize :: "number \<Rightarrow> SentimentResult list \<Rightarrow> SentimentResult list option" where
  "normalize tot [] = Some []"
| "normalize tot (item # items) =
     (case divide_number (score item) tot of
        None \<Rightarrow> None
      | Some q \<Rightarrow> map_option ((#) (item\<lparr>score := q\<rparr>)) (normalize tot items))"

text \<open>
  \<open>Array.prototype.sort\<close> with a comparison function is a built-in of the language,
  required to be stable: elements that compare equal keep their relative order. It is
  modelled by insertion from the right, where an element goes in front of the first
  element it does not have to follow.
\<close>

fun insert_by :: "('a \<Rightarrow> 'a \<Rightarrow> number) \<Rightarrow> 'a \<Rightarrow> 'a list \<Rightarrow> 'a list" where
  "insert_by cmp x [] = [x]"
| "insert_by cmp x (y # ys) =
     (if cmp x y \<le> 0 then x # y # ys else y # insert_by cmp x ys)"

definition sort_by :: "('a \<Rightarrow> 'a \<Rightarrow> number) \<Rightarrow> 'a list \<Rightarrow> 'a list" where
  "sort_by cmp xs = foldr (insert_by cmp) xs []"

text \<open>The comparison function \<open>(a, b) => b.score - a.score\<close>.\<close>

definition byScoreDesc :: "SentimentResult \<Rightarrow> SentimentResult \<Rightarrow> number" where
  "byScoreDesc a b = score b - score a"

section \<open>Keyword extraction\<close>

text \<open>The class \<open>\w\<close> of a regular expression: letters, digits and the underscore.\<close>

definition isWordChar :: "char \<Rightarrow> bool" where
  "isWordChar c =
     (let n = (of_char c :: nat)
      in (48 \<le> n \<and> n \<le> 57) \<or> (65 \<le> n \<and> n \<le> 90) \<or> n = 95 \<or> (97 \<le> n \<and> n \<le> 122))"

text \<open>
  \<open>s.split(/\W+/)\<close>: the pieces of \<open>s\<close> between the maximal runs of non-word
  characters. \<open>cur\<close> is the piece being read and \<open>inSep\<close> tells that the scan is
  inside a separator. A separator at either end of \<open>s\<close> leaves an empty piece there,
  and the empty string splits into one empty piece.
\<close>

fun split_scan :: "string \<Rightarrow> bool \<Rightarrow> string \<Rightarrow> string list" where
  "split_scan cur inSep [] = [cur]"
| "split_scan cur inSep (c # cs) =
     (if isWordChar c then split_scan (cur @ [c]) False cs
      else if inSep then split_scan cur True cs
      else cur # split_scan [] True cs)"

definition split_nonword :: "string \<Rightarrow> string list" where
  "split_nonword s = split_scan [] False s"

definition commonWords :: "string list" where
  "commonWords = [''that'', ''this'', ''with'', ''have'', ''will'', ''been'', ''they'',
     ''there'', ''their'', ''would'', ''could'', ''should'']"

definition extractKeywords :: "string \<Rightarrow> string list" where
  "extractKeywords t =
     (let words = filter (\<lambda>word. length word > 3) (split_nonword (toLowerCase t))
      in take 5 (filter (\<lambda>word. word \<notin> set commonWords) words))"



section \<open>One scoring pass\<close>

text \<open>
  \<open>analyzeSentiment\<close>, with the instant read by \<open>new Date()\<close> as the parameter
  \<open>now\<close>. The simulated delay and the \<open>isAnalyzing\<close> flag belong to the dashboard
  state below. \<open>sentiment[0]\<close> of an empty array has no \<open>score\<close> to read, which is
  the second \<open>None\<close>.
\<close>

definition analyzeSentiment :: "int \<Rightarrow> string \<Rightarrow> AnalysisResult option" where
  "analyzeSentiment now inputText =
     (let sentiment0 = sentimentArray (rawScores inputText)
      in case normalize (total sentiment0) sentiment0 of
           None \<Rightarrow> None
         | Some normalized \<Rightarrow>
             (case sort_by byScoreDesc normalized of
                [] \<Rightarrow> None
              | first # rest \<Rightarrow>
                  Some \<lparr>sentiment = first # rest, confidence = score first,
                        keywords' = extractKeywords inputText, text' = inputText,
                        timestamp = now\<rparr>))"

section \<open>Dashboard state\<close>

text \<open>The \<open>useState\<close> cells of \<open>SentimentDashboard\<close>; \<open>text_state\<close> is the cell \<open>text\<close>.\<close>

record dashboard =
  text_state :: string
  isAnalyzing :: bool
  results :: "AnalysisResult list"
  currentResult :: "AnalysisResult option"
  fileName :: "string option"

definition initial :: dashboard where
  "initial = \<lparr>text_state = [], isAnalyzing = False, results = [], currentResult = None,
               fileName = None\<rparr>"

definition isSpace :: "char \<Rightarrow> bool" where
  "isSpace c = (let n = (of_char c :: nat) in (9 \<le> n \<and> n \<le> 13) \<or> n = 32)"

text \<open>\<open>String.prototype.trim\<close> on ASCII text.\<close>

definition trim :: "string \<Rightarrow> string" where
  "trim s = rev (dropWhile isSpace (rev (dropWhile isSpace s)))"

text \<open>
  \<open>handleAnalyze\<close>, taken as one step from the click to the last state update: the
  trigger is disabled while a pass is in flight. It returns early on blank text;
  otherwise the new result becomes the current one and is put in front of the first
  nine of the previous results.
\<close>

definition handleAnalyze :: "int \<Rightarrow> dashboard \<Rightarrow> dashboard option" where
  "handleAnalyze now s =
     (if trim (text_state s) = [] then Some s
      else case analyzeSentiment now (text_state s) of
             None \<Rightarrow> None
           | Some result \<Rightarrow>
               Some (s\<lparr>isAnalyzing := False, currentResult := Some result,
                       results := result # take 9 (results s)\<rparr>))"

definition handleNewAnalysis :: "dashboard \<Rightarrow> dashboard" where
  "handleNewAnalysis s =
     s\<lparr>text_state := [], currentResult := None, results := [], fileName := None\<rparr>"

text \<open>A selected file: its MIME type, its name and its content.\<close>

record upload =
  file_type :: string
  file_name :: string
  file_content :: string

definition handleFileUpload :: "upload option \<Rightarrow> dashboard \<Rightarrow> dashboard" where
  "handleFileUpload file s =
     (case file of
        None \<Rightarrow> s
      | Some f \<Rightarrow>
          if \<not> prefix ''text/'' (file_type f) \<and> \<not> suffix ''.txt'' (file_name f) then s
          else s\<lparr>text_state := file_content f, fileName := Some (file_name f)\<rparr>)"

text \<open>The events that update the state, and the states the dashboard can reach.\<close>

datatype event =
  Analyze int
| NewAnalysis
| SetText string
| FileUpload "upload option"

fun update :: "event \<Rightarrow> dashboard \<Rightarrow> dashboard option" where
  "update (Analyze now) s = handleAnalyze now s"
| "update NewAnalysis s = Some (handleNewAnalysis s)"
| "update (SetText t) s = Some (s\<lparr>text_state := t\<rparr>)"
| "update (FileUpload f) s = Some (handleFileUpload f s)"

fun run :: "event list \<Rightarrow> dashboard \<Rightarrow> dashboard option" where
  "run [] s = Some s"
| "run (e # es) s = (case update e s of None \<Rightarrow> None | Some s' \<Rightarrow> run es s')"

section \<open>CSV export\<close>



















section \<open>Notions used to state the properties\<close>

text \<open>The sentiment array after the division by the total, before it is sorted.\<close>

definition normalizedScores :: "string \<Rightarrow> SentimentResult list" where
  "normalizedScores t =
     map (\<lambda>item. item\<lparr>score := score item / total (sentimentArray (rawScores t))\<rparr>)
       (sentimentArray (rawScores t))"

text \<open>
  The place of a label in the array as it is created, and the order in which two entries
  stand after a stable sort by descending score: the larger score first and, of two
  equal scores, the entry created first.
\<close>

definition labelRank :: "string \<Rightarrow> nat" where
  "labelRank l = (if l = ''POSITIVE'' then 0 else if l = ''NEGATIVE'' then 1 else 2)"

definition ranksBefore :: "SentimentResult \<Rightarrow> SentimentResult \<Rightarrow> bool" where
  "ranksBefore a b =
     (score a > score b \<or> (score a = score b \<and> labelRank (label a) < labelRank (label b)))"


text \<open>
  Data for the examples: the results of analysing \<open>good\<close> and \<open>bad\<close> at instant 0,
  and the text that \<open>toISOString\<close> gives for instant 0, the only instant the
  examples use.
\<close>

definition exampleGood :: AnalysisResult where
  "exampleGood =
     \<lparr>sentiment = [\<lparr>label = ''POSITIVE'', score = 10 / 11\<rparr>,
                   \<lparr>label = ''NEUTRAL'', score = 1 / 11\<rparr>,
                   \<lparr>label = ''NEGATIVE'', score = 0\<rparr>],
      confidence = 10 / 11, keywords' = [''good''], text' = ''good'', timestamp = 0\<rparr>"

definition exampleBad :: AnalysisResult where
  "exampleBad =
     \<lparr>sentiment = [\<lparr>label = ''NEGATIVE'', score = 10 / 11\<rparr>,
                   \<lparr>label = ''NEUTRAL'', score = 1 / 11\<rparr>,
                   \<lparr>label = ''POSITIVE'', score = 0\<rparr>],
      confidence = 10 / 11, keywords' = [], text' = ''bad'', timestamp = 0\<rparr>"


section \<open>Scores are non-negative and their total is positive\<close>

lemma foldl_add_counts:
  "foldl (\<lambda>acc w. acc + of_nat (f w)) (a::rat) ws = a + of_nat (sum_list (map f ws))"
  by (induction ws arbitrary: a) (simp_all add: add.assoc)

lemma countWords_sum: "countWords ws t = of_nat (sum_list (map (\<lambda>w. count_matches w t) ws))"
  by (simp add: countWords_def foldl_add_counts)

lemma countWords_nonneg: "0 \<le> countWords ws t"
  by (simp add: countWords_sum)

lemma foldl_phrases_ge:
  "(a::rat) \<le> foldl (\<lambda>acc p. if includes' t p then acc + 3 else acc) a ps"
proof (induction ps arbitrary: a)
  case Nil
  show ?case by simp
next
  case (Cons p ps)
  have "a \<le> (if includes' t p then a + 3 else a)" by simp
  also have "\<dots> \<le> foldl (\<lambda>acc p. if includes' t p then acc + 3 else acc) (if includes' t p then a + 3 else a) ps"
    by (rule Cons.IH)
  finally show ?case by simp
qed

lemma signalScores_nonneg:
  "0 \<le> positiveScore (signalScores t) \<and> 0 \<le> negativeScore (signalScores t)
   \<and> 0 \<le> neutralScore (signalScores t)"
proof -
  let ?w = "wordScores t"
  let ?s = "strongPhrases t ?w"
  have w: "0 \<le> positiveScore ?w" "0 \<le> negativeScore ?w" "0 \<le> neutralScore ?w"
    by (simp_all add: wordScores_def countWords_nonneg)
  have "negativeScore ?w \<le> negativeScore ?s"
    by (simp add: strongPhrases_def foldl_phrases_ge)
  with w have s: "0 \<le> positiveScore ?s" "0 \<le> negativeScore ?s" "0 \<le> neutralScore ?s"
    by (simp_all add: strongPhrases_def)
  then show ?thesis
    by (simp add: signalScores_def exclamationBoost_def)
qed

lemma rawScores_nonneg:
  "0 \<le> positiveScore (rawScores t) \<and> 0 \<le> negativeScore (rawScores t)
   \<and> 0 \<le> neutralScore (rawScores t)"
  using signalScores_nonneg [of "toLowerCase t"]
  by (simp add: rawScores_def baseScores_def)

lemma rawScores_signal:
  "positiveScore (rawScores t) \<noteq> 0 \<or> negativeScore (rawScores t) \<noteq> 0
   \<or> neutralScore (rawScores t) \<noteq> 0"
  by (simp add: rawScores_def baseScores_def)

lemma total_sentimentArray:
  "total (sentimentArray s) =
     positiveScore s + negativeScore s + (if neutralScore s = 0 then 1 / 10 else neutralScore s)"
  by (simp add: total_def sentimentArray_def)

lemma total_positive: "0 < total (sentimentArray (rawScores t))"
proof -
  let ?s = "rawScores t"
  have nn: "0 \<le> positiveScore ?s" "0 \<le> negativeScore ?s" "0 \<le> neutralScore ?s"
    using rawScores_nonneg [of t] by simp_all
  have "0 < (if neutralScore ?s = 0 then 1 / 10 else neutralScore ?s)"
    using nn(3) by simp
  with nn(1,2) show ?thesis
    unfolding total_sentimentArray by linarith
qed

lemma normalize_Some:
  "tot \<noteq> 0 \<Longrightarrow> normalize tot xs = Some (map (\<lambda>item. item\<lparr>score := score item / tot\<rparr>) xs)"
  by (induction xs) (simp_all add: divide_number_def)

section \<open>The stable sort\<close>

lemma sort_by_Nil: "sort_by cmp [] = []"
  by (simp add: sort_by_def)

lemma sort_by_Cons: "sort_by cmp (x # xs) = insert_by cmp x (sort_by cmp xs)"
  by (simp add: sort_by_def)

lemma insert_by_not_Nil: "insert_by cmp x xs \<noteq> []"
  by (cases xs) simp_all

lemma length_insert_by: "length (insert_by cmp x xs) = Suc (length xs)"
  by (induction xs) simp_all

lemma length_sort_by: "length (sort_by cmp xs) = length xs"
  by (induction xs) (simp_all add: sort_by_Nil sort_by_Cons length_insert_by)

lemma set_insert_by: "set (insert_by cmp x xs) = insert x (set xs)"
  by (induction xs) auto

lemma set_sort_by: "set (sort_by cmp xs) = set xs"
  by (induction xs) (simp_all add: sort_by_Nil sort_by_Cons set_insert_by)

lemma sum_insert_by: "sum_list (map f (insert_by cmp x xs)) = (f x :: rat) + sum_list (map f xs)"
  by (induction xs) simp_all

lemma sum_sort_by: "sum_list (map f (sort_by cmp xs)) = (sum_list (map f xs) :: rat)"
  by (induction xs) (simp_all add: sort_by_Nil sort_by_Cons sum_insert_by)

text \<open>
  The sort orders any array by descending score and is stable: the entries of one score
  keep the order they had.
\<close>

lemma insert_by_descending:
  "sorted_wrt (\<lambda>a b. score b \<le> score a) xs \<Longrightarrow>
   sorted_wrt (\<lambda>a b. score b \<le> score a) (insert_by byScoreDesc x xs)"
  by (induction xs) (auto simp add: byScoreDesc_def set_insert_by)

lemma sort_by_descending: "sorted_wrt (\<lambda>a b. score b \<le> score a) (sort_by byScoreDesc xs)"
  by (induction xs) (simp_all add: sort_by_Nil sort_by_Cons insert_by_descending)

lemma insert_by_stable:
  "filter (\<lambda>y. score y = k) (insert_by byScoreDesc x xs) = filter (\<lambda>y. score y = k) (x # xs)"
  by (induction xs) (auto simp add: byScoreDesc_def)

lemma sort_by_stable:
  "filter (\<lambda>y. score y = k) (sort_by byScoreDesc xs) = filter (\<lambda>y. score y = k) xs"
  by (induction xs) (simp_all add: sort_by_Nil sort_by_Cons insert_by_stable)

lemma sort3_ranked:
  "sorted_wrt ranksBefore (sort_by byScoreDesc
     [\<lparr>label = ''POSITIVE'', score = a\<rparr>, \<lparr>label = ''NEGATIVE'', score = b\<rparr>,
      \<lparr>label = ''NEUTRAL'', score = c\<rparr>])"
  by (auto simp add: sort_by_def byScoreDesc_def ranksBefore_def labelRank_def)


section \<open>The result of a scoring pass\<close>

lemma normalizedScores_eq:
  "normalizedScores t =
     [\<lparr>label = ''POSITIVE'', score = positiveScore (rawScores t) / total (sentimentArray (rawScores t))\<rparr>,
      \<lparr>label = ''NEGATIVE'', score = negativeScore (rawScores t) / total (sentimentArray (rawScores t))\<rparr>,
      \<lparr>label = ''NEUTRAL'', score = (if neutralScore (rawScores t) = 0 then 1 / 10 else neutralScore (rawScores t))
          / total (sentimentArray (rawScores t))\<rparr>]"
  by (simp add: normalizedScores_def sentimentArray_def)

lemma analyzeSentiment_eq:
  "analyzeSentiment now t =
     Some \<lparr>sentiment = sort_by byScoreDesc (normalizedScores t),
           confidence = score (hd (sort_by byScoreDesc (normalizedScores t))),
           keywords' = extractKeywords t, text' = t, timestamp = now\<rparr>"
proof -
  have "total (sentimentArray (rawScores t)) \<noteq> 0"
    using total_positive [of t] by simp
  then have n: "normalize (total (sentimentArray (rawScores t))) (sentimentArray (rawScores t))
      = Some (normalizedScores t)"
    by (simp add: normalize_Some normalizedScores_def)
  have "sort_by byScoreDesc (normalizedScores t) \<noteq> []"
    by (simp add: normalizedScores_eq sort_by_Cons insert_by_not_Nil)
  then obtain x xs where "sort_by byScoreDesc (normalizedScores t) = x # xs"
    by (cases "sort_by byScoreDesc (normalizedScores t)") simp_all
  with n show ?thesis
    by (simp add: analyzeSentiment_def Let_def)
qed

lemma normalized_sum: "sum_list (map score (normalizedScores t)) = 1"
proof -
  have "total (sentimentArray (rawScores t)) \<noteq> 0"
    using total_positive [of t] by simp
  then show ?thesis
    by (simp add: normalizedScores_eq total_sentimentArray add_divide_distrib [symmetric])
qed

lemma normalized_range:
  "s \<in> set (normalizedScores t) \<Longrightarrow> 0 \<le> score s \<and> score s \<le> 1"
proof -
  let ?r = "rawScores t"
  let ?T = "total (sentimentArray ?r)"
  let ?u = "if neutralScore ?r = 0 then 1 / 10 else neutralScore ?r"
  assume s: "s \<in> set (normalizedScores t)"
  have nn: "0 \<le> positiveScore ?r" "0 \<le> negativeScore ?r" "0 \<le> neutralScore ?r"
    using rawScores_nonneg [of t] by simp_all
  have u: "0 \<le> ?u" using nn(3) by simp
  have T: "0 < ?T" by (rule total_positive)
  have Teq: "?T = positiveScore ?r + negativeScore ?r + ?u" by (rule total_sentimentArray)
  have "score s = positiveScore ?r / ?T \<or> score s = negativeScore ?r / ?T \<or> score s = ?u / ?T"
    using s unfolding normalizedScores_eq by auto
  moreover have "0 \<le> positiveScore ?r / ?T \<and> positiveScore ?r / ?T \<le> 1"
    using nn u T Teq by (simp add: divide_le_eq)
  moreover have "0 \<le> negativeScore ?r / ?T \<and> negativeScore ?r / ?T \<le> 1"
    using nn u T Teq by (simp add: divide_le_eq)
  moreover have "0 \<le> ?u / ?T \<and> ?u / ?T \<le> 1"
    using nn u T Teq by (simp add: divide_le_eq)
  ultimately show ?thesis by metis
qed

text \<open>
  Claim C1. A scoring pass on any text returns a result whose sentiment array has
  exactly three entries, labelled POSITIVE, NEGATIVE and NEUTRAL, each score between
  0 and 1, and the scores add up to 1. (Numbers are exact here, so the sum is 1 and not
  only close to it; the text need not even be non-empty.)
\<close>

theorem scores_form_distribution:
  "\<exists>r. analyzeSentiment now t = Some r
     \<and> length (sentiment r) = 3
     \<and> set (map label (sentiment r)) = {''POSITIVE'', ''NEGATIVE'', ''NEUTRAL''}
     \<and> (\<forall>s \<in> set (sentiment r). 0 \<le> score s \<and> score s \<le> 1)
     \<and> sum_list (map score (sentiment r)) = 1"
proof -
  let ?xs = "sort_by byScoreDesc (normalizedScores t)"
  have "length ?xs = 3"
    by (simp add: length_sort_by normalizedScores_eq)
  moreover have "set (map label ?xs) = {''POSITIVE'', ''NEGATIVE'', ''NEUTRAL''}"
    by (simp add: set_sort_by normalizedScores_eq)
  moreover have "\<forall>s \<in> set ?xs. 0 \<le> score s \<and> score s \<le> 1"
    using normalized_range by (simp add: set_sort_by)
  moreover have "sum_list (map score ?xs) = 1"
    by (simp add: sum_sort_by normalized_sum)
  ultimately show ?thesis
    by (simp add: analyzeSentiment_eq)
qed

theorem scores_form_distribution_witness:
  "\<lparr>label = ''POSITIVE'', score = 10 / 21\<rparr> \<in> set (sentiment (the (analyzeSentiment 0 ''good bad'')))
   \<and> length (sentiment (the (analyzeSentiment 0 ''good bad''))) = 3
   \<and> sum_list (map score (sentiment (the (analyzeSentiment 0 ''good bad'')))) = 1"
proof -
  have e: "analyzeSentiment 0 ''good bad'' =
      Some \<lparr>sentiment = [\<lparr>label = ''POSITIVE'', score = 10 / 21\<rparr>,
                          \<lparr>label = ''NEGATIVE'', score = 10 / 21\<rparr>,
                          \<lparr>label = ''NEUTRAL'', score = 1 / 21\<rparr>],
            confidence = 10 / 21, keywords' = [''good''], text' = ''good bad'',
            timestamp = 0\<rparr>"
    by code_simp
  show ?thesis
    using scores_form_distribution [of 0 "''good bad''"] e by auto
qed

text \<open>
  Claim C3. In the result of a scoring pass the three entries stand in descending order
  of their normalized scores, entries with equal scores in the order POSITIVE, NEGATIVE,
  NEUTRAL in which the array was created, and the confidence is the score of the first
  entry.
\<close>

theorem sorted_by_score_stable:
  "\<exists>r. analyzeSentiment now t = Some r
     \<and> sorted_wrt ranksBefore (sentiment r)
     \<and> sentiment r \<noteq> []
     \<and> confidence r = score (hd (sentiment r))"
proof -
  have "sorted_wrt ranksBefore (sort_by byScoreDesc (normalizedScores t))"
    unfolding normalizedScores_eq by (rule sort3_ranked)
  moreover have "sort_by byScoreDesc (normalizedScores t) \<noteq> []"
    by (simp add: normalizedScores_eq sort_by_Cons insert_by_not_Nil)
  ultimately show ?thesis
    by (simp add: analyzeSentiment_eq)
qed

theorem sorted_by_score_stable_witness:
  "sentiment (the (analyzeSentiment 0 ''good bad'')) =
     [\<lparr>label = ''POSITIVE'', score = 10 / 21\<rparr>, \<lparr>label = ''NEGATIVE'', score = 10 / 21\<rparr>,
      \<lparr>label = ''NEUTRAL'', score = 1 / 21\<rparr>]
   \<and> ranksBefore \<lparr>label = ''POSITIVE'', score = 10 / 21\<rparr> \<lparr>label = ''NEGATIVE'', score = 10 / 21\<rparr>
   \<and> confidence (the (analyzeSentiment 0 ''good bad'')) = 10 / 21"
proof -
  have e: "analyzeSentiment 0 ''good bad'' =
      Some \<lparr>sentiment = [\<lparr>label = ''POSITIVE'', score = 10 / 21\<rparr>,
                          \<lparr>label = ''NEGATIVE'', score = 10 / 21\<rparr>,
                          \<lparr>label = ''NEUTRAL'', score = 1 / 21\<rparr>],
            confidence = 10 / 21, keywords' = [''good''], text' = ''good bad'',
            timestamp = 0\<rparr>"
    by code_simp
  show ?thesis
    using sorted_by_score_stable [of 0 "''good bad''"] e by auto
qed


text \<open>
  Claim C8. The divisor of the normalization, the sum of the three scores after the base
  scores and the floor of 0.1 for the neutral score, is positive for every text, and the
  scoring pass returns a result: neither the division nor the read of the first entry
  can go wrong.
\<close>

theorem scoring_cannot_fail:
  "0 < total (sentimentArray (rawScores t)) \<and> (\<exists>r. analyzeSentiment now t = Some r)"
  by (simp add: total_positive analyzeSentiment_eq)

text \<open>
  Claim C5. When the neutral score is zero as the sentiment array is created, the
  positive or the negative score is not zero, the neutral entry of the array is 0.1,
  the divisor is the positive plus the negative score plus 0.1, and the result holds the
  neutral entry with score 0.1 divided by that sum.
\<close>

theorem neutral_floor:
  assumes "neutralScore (rawScores t) = 0"
  shows "(positiveScore (rawScores t) \<noteq> 0 \<or> negativeScore (rawScores t) \<noteq> 0)
     \<and> sentimentArray (rawScores t) ! 2 = \<lparr>label = ''NEUTRAL'', score = 1 / 10\<rparr>
     \<and> total (sentimentArray (rawScores t))
         = positiveScore (rawScores t) + negativeScore (rawScores t) + 1 / 10
     \<and> (\<exists>r. analyzeSentiment now t = Some r
           \<and> \<lparr>label = ''NEUTRAL'',
               score = (1 / 10) / (positiveScore (rawScores t) + negativeScore (rawScores t) + 1 / 10)\<rparr>
              \<in> set (sentiment r))"
proof -
  have a: "positiveScore (rawScores t) \<noteq> 0 \<or> negativeScore (rawScores t) \<noteq> 0"
    using rawScores_signal [of t] assms by simp
  have b: "sentimentArray (rawScores t) ! 2 = \<lparr>label = ''NEUTRAL'', score = 1 / 10\<rparr>"
    using assms by (simp add: sentimentArray_def)
  have c: "total (sentimentArray (rawScores t))
      = positiveScore (rawScores t) + negativeScore (rawScores t) + 1 / 10"
    using assms by (simp add: total_sentimentArray)
  have "\<lparr>label = ''NEUTRAL'',
         score = (1 / 10) / (positiveScore (rawScores t) + negativeScore (rawScores t) + 1 / 10)\<rparr>
        \<in> set (normalizedScores t)"
    unfolding normalizedScores_eq using assms c by simp
  then have d: "\<exists>r. analyzeSentiment now t = Some r
           \<and> \<lparr>label = ''NEUTRAL'',
               score = (1 / 10) / (positiveScore (rawScores t) + negativeScore (rawScores t) + 1 / 10)\<rparr>
              \<in> set (sentiment r)"
    by (simp add: analyzeSentiment_eq set_sort_by)
  from a b c d show ?thesis by blast
qed

theorem neutral_floor_witness:
  "neutralScore (rawScores ''good'') = 0
   \<and> total (sentimentArray (rawScores ''good'')) = 11 / 10
   \<and> \<lparr>label = ''NEUTRAL'', score = 1 / 11\<rparr> \<in> set (sentiment (the (analyzeSentiment 0 ''good'')))"
proof -
  have h: "neutralScore (rawScores ''good'') = 0" by code_simp
  have p: "positiveScore (rawScores ''good'') = 1" by code_simp
  have n: "negativeScore (rawScores ''good'') = 0" by code_simp
  show ?thesis
    using neutral_floor [OF h, of 0] h p n by auto
qed

section \<open>Text without any signal\<close>

lemma count_matches_absent: "\<not> includes' t w \<Longrightarrow> count_matches w t = 0"
  by (induction t) simp_all

lemma countWords_absent:
  "\<forall>w \<in> set ws. \<not> includes' t w \<Longrightarrow> countWords ws t = 0"
  by (simp add: countWords_sum count_matches_absent)

lemma foldl_phrases_absent:
  "\<forall>p \<in> set ps. \<not> includes' t p \<Longrightarrow>
     foldl (\<lambda>acc p. if includes' t p then acc + 3 else acc) (a::rat) ps = a"
  by (induction ps arbitrary: a) simp_all

lemma sort_zero_signal:
  "sort_by byScoreDesc
     [\<lparr>label = ''POSITIVE'', score = 0\<rparr>, \<lparr>label = ''NEGATIVE'', score = 0\<rparr>,
      \<lparr>label = ''NEUTRAL'', score = 1\<rparr>]
   = [\<lparr>label = ''NEUTRAL'', score = 1\<rparr>, \<lparr>label = ''POSITIVE'', score = 0\<rparr>,
      \<lparr>label = ''NEGATIVE'', score = 0\<rparr>]"
  by (simp add: sort_by_def byScoreDesc_def)

text \<open>
  Claim C4. When the lower-cased text contains none of the positive, negative and
  neutral words and none of the strong negative phrases, the three scores counted from
  it are zero, the neutral score is then set to 1, and the result ranks NEUTRAL first
  with score 1, which is the confidence.
\<close>

theorem zero_signal_is_neutral:
  assumes "\<forall>w \<in> set (positiveWords @ negativeWords @ neutralWords @ strongNegativePhrases).
             \<not> includes' (toLowerCase t) w"
  shows "signalScores (toLowerCase t) = \<lparr>positiveScore = 0, negativeScore = 0, neutralScore = 0\<rparr>
     \<and> rawScores t = \<lparr>positiveScore = 0, negativeScore = 0, neutralScore = 1\<rparr>
     \<and> analyzeSentiment now t =
         Some \<lparr>sentiment = [\<lparr>label = ''NEUTRAL'', score = 1\<rparr>, \<lparr>label = ''POSITIVE'', score = 0\<rparr>,
                             \<lparr>label = ''NEGATIVE'', score = 0\<rparr>],
               confidence = 1, keywords' = extractKeywords t, text' = t, timestamp = now\<rparr>"
proof -
  let ?t = "toLowerCase t"
  have w: "wordScores ?t = \<lparr>positiveScore = 0, negativeScore = 0, neutralScore = 0\<rparr>"
    using assms by (simp add: wordScores_def countWords_absent)
  have p: "strongPhrases ?t (wordScores ?t)
      = \<lparr>positiveScore = 0, negativeScore = 0, neutralScore = 0\<rparr>"
    unfolding strongPhrases_def using assms by (simp add: foldl_phrases_absent w)
  have s: "signalScores ?t = \<lparr>positiveScore = 0, negativeScore = 0, neutralScore = 0\<rparr>"
    unfolding signalScores_def p by (simp add: exclamationBoost_def)
  have r: "rawScores t = \<lparr>positiveScore = 0, negativeScore = 0, neutralScore = 1\<rparr>"
    by (simp add: rawScores_def s baseScores_def)
  have n: "normalizedScores t =
      [\<lparr>label = ''POSITIVE'', score = 0\<rparr>, \<lparr>label = ''NEGATIVE'', score = 0\<rparr>,
       \<lparr>label = ''NEUTRAL'', score = 1\<rparr>]"
    by (simp add: normalizedScores_eq r total_sentimentArray)
  have "analyzeSentiment now t =
         Some \<lparr>sentiment = [\<lparr>label = ''NEUTRAL'', score = 1\<rparr>, \<lparr>label = ''POSITIVE'', score = 0\<rparr>,
                             \<lparr>label = ''NEGATIVE'', score = 0\<rparr>],
               confidence = 1, keywords' = extractKeywords t, text' = t, timestamp = now\<rparr>"
    by (simp add: analyzeSentiment_eq n sort_zero_signal)
  with s r show ?thesis by simp
qed

theorem zero_signal_is_neutral_witness:
  "rawScores ''Hello, World!'' = \<lparr>positiveScore = 0, negativeScore = 0, neutralScore = 1\<rparr>
   \<and> map label (sentiment (the (analyzeSentiment 7 ''Hello, World!'')))
       = [''NEUTRAL'', ''POSITIVE'', ''NEGATIVE'']
   \<and> confidence (the (analyzeSentiment 7 ''Hello, World!'')) = 1"
proof -
  have h: "\<forall>w \<in> set (positiveWords @ negativeWords @ neutralWords @ strongNegativePhrases).
       \<not> includes' (toLowerCase ''Hello, World!'') w"
    by code_simp
  show ?thesis
    using zero_signal_is_neutral [OF h, of 7] by simp
qed

section \<open>Exclamation marks\<close>

lemma count_matches_char: "count_matches [c] t = count_list t c"
  by (induction t) auto

lemma toLowerChar_exclamation: "toLowerChar c = CHR ''!'' \<longleftrightarrow> c = CHR ''!''"
proof (cases "isUpper c")
  case False
  then show ?thesis by (simp add: toLowerChar_def)
next
  case True
  then have r: "65 \<le> (of_char c :: nat)" "(of_char c :: nat) \<le> 90"
    by (simp_all add: isUpper_def)
  have "char_of (of_char c + (32::nat)) \<noteq> CHR ''!''"
  proof
    assume "char_of (of_char c + (32::nat)) = CHR ''!''"
    then have "(of_char (char_of (of_char c + (32::nat)) :: char) :: nat) = of_char (CHR ''!'')"
      by simp
    then have "(of_char c + 32) mod 256 = (33::nat)"
      by simp
    with r show False by simp
  qed
  moreover have "c \<noteq> CHR ''!''" using r by auto
  ultimately show ?thesis using True by (simp add: toLowerChar_def)
qed

lemma exclamations_toLowerCase: "exclamations (toLowerCase t) = count_list t (CHR ''!'')"
  unfolding exclamations_def count_matches_char toLowerCase_def
  by (induction t) (simp_all add: toLowerChar_exclamation)

text \<open>
  Claim C6. With \<open>k\<close> the number of exclamation marks of the input text and \<open>s\<close>
  the scores after the words and the strong phrases: when \<open>k\<close> is positive, half of
  \<open>k\<close> is added to the positive score if that is the larger one and to the negative
  score if that is the larger one; nothing changes when the two are equal or when
  \<open>k\<close> is zero.
\<close>

theorem exclamation_adjustment:
  assumes "t = toLowerCase inputText"
    and "s = strongPhrases t (wordScores t)"
    and "k = count_list inputText (CHR ''!'')"
  shows "exclamations t = k
     \<and> (0 < k \<and> negativeScore s < positiveScore s \<longrightarrow>
          signalScores t = s\<lparr>positiveScore := positiveScore s + of_nat k * (1 / 2)\<rparr>)
     \<and> (0 < k \<and> positiveScore s < negativeScore s \<longrightarrow>
          signalScores t = s\<lparr>negativeScore := negativeScore s + of_nat k * (1 / 2)\<rparr>)
     \<and> (positiveScore s = negativeScore s \<longrightarrow> signalScores t = s)
     \<and> (k = 0 \<longrightarrow> signalScores t = s)"
proof -
  have k: "exclamations t = k"
    using assms(1,3) by (simp add: exclamations_toLowerCase)
  have e: "signalScores t = exclamationBoost t s"
    using assms(2) by (simp add: signalScores_def)
  show ?thesis
    unfolding e using k by (simp add: exclamationBoost_def)
qed

theorem exclamation_adjustment_witness:
  "count_list ''This is the best, most amazing experience!'' (CHR ''!'') = 1
   \<and> strongPhrases (toLowerCase ''This is the best, most amazing experience!'')
         (wordScores (toLowerCase ''This is the best, most amazing experience!''))
       = \<lparr>positiveScore = 2, negativeScore = 0, neutralScore = 0\<rparr>
   \<and> signalScores (toLowerCase ''This is the best, most amazing experience!'')
       = \<lparr>positiveScore = 5 / 2, negativeScore = 0, neutralScore = 0\<rparr>"
proof -
  have k: "count_list ''This is the best, most amazing experience!'' (CHR ''!'') = 1"
    by code_simp
  have s: "strongPhrases (toLowerCase ''This is the best, most amazing experience!'')
         (wordScores (toLowerCase ''This is the best, most amazing experience!''))
       = \<lparr>positiveScore = 2, negativeScore = 0, neutralScore = 0\<rparr>"
    by code_simp
  show ?thesis
    using exclamation_adjustment [OF refl refl refl, of "''This is the best, most amazing experience!''"]
    unfolding k s by simp
qed

section \<open>Keywords\<close>






text \<open>The example of the specification.\<close>

lemma extractKeywords_example:
  "extractKeywords ''That wonderful movie was truly fantastic and memorable''
     = [''wonderful'', ''movie'', ''truly'', ''fantastic'', ''memorable'']"
  by code_simp

section \<open>The list of recent results\<close>

lemma handleAnalyze_blank: "trim (text_state s) = [] \<Longrightarrow> handleAnalyze now s = Some s"
  by (simp add: handleAnalyze_def)

lemma handleAnalyze_step:
  "trim (text_state s) \<noteq> [] \<Longrightarrow>
   \<exists>s'. handleAnalyze now s = Some s' \<and> length (results s') = min (length (results s) + 1) 10"
  by (auto simp add: handleAnalyze_def analyzeSentiment_eq)

lemma update_bounded:
  "\<exists>s'. update e s = Some s' \<and> (length (results s) \<le> 10 \<longrightarrow> length (results s') \<le> 10)"
proof (cases e)
  case (Analyze now)
  show ?thesis
  proof (cases "trim (text_state s) = []")
    case True
    then show ?thesis using Analyze by (simp add: handleAnalyze_blank)
  next
    case False
    from handleAnalyze_step [OF False, of now] Analyze show ?thesis by auto
  qed
next
  case NewAnalysis
  then show ?thesis by (simp add: handleNewAnalysis_def)
next
  case (SetText t)
  then show ?thesis by simp
next
  case (FileUpload f)
  then show ?thesis by (simp add: handleFileUpload_def split: option.splits)
qed

lemma run_bounded:
  "length (results s) \<le> 10 \<Longrightarrow> \<exists>s'. run es s = Some s' \<and> length (results s') \<le> 10"
proof (induction es arbitrary: s)
  case Nil
  then show ?case by simp
next
  case (Cons e es)
  from update_bounded [of e s] Cons.prems obtain s1
    where s1: "update e s = Some s1" "length (results s1) \<le> 10" by auto
  from Cons.IH [OF s1(2)] s1(1) show ?case by simp
qed

text \<open>
  Claim C9. An analysis of non-blank text turns a list of \<open>n\<close> results into one of
  \<open>min (n + 1) 10\<close> (on blank text \<open>handleAnalyze\<close> returns before any analysis
  and changes nothing), a new analysis empties the list, every state update keeps a
  list of at most 10 results at most 10 long, and so every state the dashboard reaches
  holds at most 10 results.
\<close>

theorem results_bounded:
  "(trim (text_state s) \<noteq> [] \<longrightarrow>
      (\<exists>s'. handleAnalyze now s = Some s'
         \<and> length (results s') = min (length (results s) + 1) 10))
   \<and> (trim (text_state s) = [] \<longrightarrow> handleAnalyze now s = Some s)
   \<and> results (handleNewAnalysis s) = []
   \<and> (\<exists>s'. update e s = Some s' \<and> (length (results s) \<le> 10 \<longrightarrow> length (results s') \<le> 10))
   \<and> (\<exists>s'. run es initial = Some s' \<and> length (results s') \<le> 10)"
proof -
  have "\<exists>s'. run es initial = Some s' \<and> length (results s') \<le> 10"
    by (rule run_bounded) (simp add: initial_def)
  then show ?thesis
    using handleAnalyze_step [of s now] handleAnalyze_blank [of s now] update_bounded [of e s]
    by (simp add: handleNewAnalysis_def)
qed

theorem results_bounded_witness:
  "trim (text_state (initial\<lparr>text_state := '' good ''\<rparr>)) = ''good''
   \<and> length (results (the (handleAnalyze 1 (initial\<lparr>text_state := '' good ''\<rparr>)))) = 1
   \<and> length (results (the (run (SetText ''good'' # replicate 11 (Analyze 1)) initial))) = 10"
proof -
  have t: "trim (text_state (initial\<lparr>text_state := '' good ''\<rparr>)) = ''good''"
    by code_simp
  have l: "length (results (initial\<lparr>text_state := '' good ''\<rparr>)) = 0"
    by (simp add: initial_def)
  have r: "length (results (the (run (SetText ''good'' # replicate 11 (Analyze 1)) initial))) = 10"
    by code_simp
  show ?thesis
    using results_bounded [of "initial\<lparr>text_state := '' good ''\<rparr>" 1 NewAnalysis "[]"] t l r
    by auto
qed

section \<open>The exported rows\<close>

text \<open>Two analyses bring the dashboard to a state that holds both example results.\<close>

lemma examples_reached:
  "run [SetText ''good'', Analyze 0, SetText ''bad'', Analyze 0] initial =
     Some \<lparr>text_state = ''bad'', isAnalyzing = False, results = [exampleBad, exampleGood],
           currentResult = Some exampleBad, fileName = None\<rparr>"
  by code_simp



text \<open>
  In every state the dashboard reaches there is a current result exactly when the list
  of results is not empty, so its exports consist of the current result.
\<close>

lemma update_current:
  "update e s = Some s' \<Longrightarrow> (currentResult s = None \<longleftrightarrow> results s = []) \<Longrightarrow>
     (currentResult s' = None \<longleftrightarrow> results s' = [])"
  by (cases e)
    (auto simp add: handleAnalyze_def handleNewAnalysis_def handleFileUpload_def
      split: if_splits option.splits)

lemma run_current:
  "run es s = Some s' \<Longrightarrow> (currentResult s = None \<longleftrightarrow> results s = []) \<Longrightarrow>
     (currentResult s' = None \<longleftrightarrow> results s' = [])"
proof (induction es arbitrary: s)
  case Nil
  then show ?case by simp
next
  case (Cons e es)
  from Cons.prems(1) obtain s1 where s1: "update e s = Some s1" "run es s1 = Some s'"
    by (auto split: option.splits)
  from update_current [OF s1(1) Cons.prems(2)] Cons.IH [OF s1(2)] show ?case by simp
qed

lemma dashboard_current_present:
  "run es initial = Some s \<Longrightarrow> (currentResult s = None \<longleftrightarrow> results s = [])"
  using run_current [of es initial s] by (simp add: initial_def)




end
